theory Spec2Isabelle
  imports Main
begin

section \<open>Text written to the output stream\<close>

text \<open>
  Everything the program prints goes through \<open>operator<<\<close> on \<open>cout\<close>, whose flags the
  program never changes. A \<open>string\<close> is written as it is, an \<open>int\<close> in decimal, and
  \<open>endl\<close> and the escape \<open>\n\<close> both write a line feed.
\<close>

definition endl :: string where
  "endl = [CHR 0x0A]"

definition dquote :: string where
  "dquote = [CHR 0x22]"

definition digit :: "nat \<Rightarrow> char" where
  "digit n = ''0123456789'' ! (n mod 10)"

fun digits :: "nat \<Rightarrow> string" where
  "digits n = (if n < 10 then [digit n] else digits (n div 10) @ [digit n])"

declare digits.simps [simp del]

definition show_int :: "int \<Rightarrow> string" where
  "show_int i = (if i < 0 then CHR ''-'' # digits (nat (- i)) else digits (nat i))"

subsection \<open>Values of type \<open>double\<close>\<close>

text \<open>
  A \<open>double\<close> is a sign with a magnitude \<open>m * 2 ^ e\<close>, an infinity or a NaN. With
  the default flags (\<open>floatfield\<close> unset, precision 6) the stream writes it as \<open>printf\<close>
  does for \<open>%g\<close>: the value is rounded to six significant decimal digits, ties to even;
  with \<open>x\<close> the decimal exponent of the rounded value, fixed notation is used when
  \<open>-4 \<le> x < 6\<close> and exponent notation otherwise; trailing zeros of the fraction are
  dropped, and the decimal point with them when nothing remains. The spelling of
  infinities and NaNs is the one of the GNU C library.
\<close>

datatype double = Finite bool nat int | Infinity bool | NaN bool

fun ilog10 :: "nat \<Rightarrow> nat" where
  "ilog10 n = (if n < 10 then 0 else Suc (ilog10 (n div 10)))"

declare ilog10.simps [simp del]

text \<open>The integer \<open>x\<close> with \<open>10 ^ x \<le> n / d < 10 ^ (x + 1)\<close>, for positive \<open>n\<close> and \<open>d\<close>.\<close>

definition decimal_exponent :: "nat \<Rightarrow> nat \<Rightarrow> int" where
  "decimal_exponent n d =
     (if d \<le> n then int (ilog10 (n div d)) else - int (Suc (ilog10 ((d - 1) div n))))"

definition round_half_even :: "nat \<Rightarrow> nat \<Rightarrow> nat" where
  "round_half_even n d =
     (let q = n div d; r = n mod d
      in if 2 * r < d then q else if d < 2 * r then q + 1 else if even q then q else q + 1)"

text \<open>The \<open>p\<close> significant digits of \<open>n / d\<close>, as a number, and its decimal exponent.\<close>

definition significand :: "nat \<Rightarrow> nat \<Rightarrow> nat \<Rightarrow> nat \<times> int" where
  "significand p n d =
     (let x = decimal_exponent n d;
          k = int p - 1 - x;
          N = (if 0 \<le> k then round_half_even (n * 10 ^ nat k) d
               else round_half_even n (d * 10 ^ nat (- k)))
      in if N = 10 ^ p then (10 ^ (p - 1), x + 1) else (N, x))"

definition strip_zeros :: "string \<Rightarrow> string" where
  "strip_zeros s = rev (dropWhile (\<lambda>c. c = CHR ''0'') (rev s))"

definition with_fraction :: "string \<Rightarrow> string \<Rightarrow> string" where
  "with_fraction ip fp = (if strip_zeros fp = [] then ip else ip @ ''.'' @ strip_zeros fp)"

definition fixed_style :: "nat \<Rightarrow> int \<Rightarrow> string" where
  "fixed_style N x =
     (if 0 \<le> x then with_fraction (take (nat x + 1) (digits N)) (drop (nat x + 1) (digits N))
      else with_fraction ''0'' (replicate (nat (- x - 1)) CHR ''0'' @ digits N))"

definition exponent_style :: "nat \<Rightarrow> int \<Rightarrow> string" where
  "exponent_style N x =
     with_fraction (take 1 (digits N)) (drop 1 (digits N))
       @ ''e'' @ (if x < 0 then ''-'' else ''+'')
       @ (if nat \<bar>x\<bar> < 10 then ''0'' else []) @ digits (nat \<bar>x\<bar>)"

definition show_magnitude :: "nat \<Rightarrow> nat \<Rightarrow> int \<Rightarrow> string" where
  "show_magnitude p m e =
     (if m = 0 then ''0''
      else let (N, x) = (if 0 \<le> e then significand p (m * 2 ^ nat e) 1
                         else significand p m (2 ^ nat (- e)))
           in if x < - 4 \<or> int p \<le> x then exponent_style N x else fixed_style N x)"

definition show_double :: "double \<Rightarrow> string" where
  "show_double v =
     (case v of
        Finite s m e \<Rightarrow> (if s then ''-'' else []) @ show_magnitude 6 m e
      | Infinity s \<Rightarrow> (if s then ''-'' else []) @ ''inf''
      | NaN s \<Rightarrow> (if s then ''-'' else []) @ ''nan'')"

text \<open>
  The literal \<open>5.6\<close> of \<open>main\<close> denotes the \<open>double\<close> nearest to 56/10, which is
  \<open>6305039478318694 / 2 ^ 50\<close> (lemma \<open>literal_5_6_nearest\<close> below).
\<close>

definition literal_5_6 :: double where
  "literal_5_6 = Finite False 6305039478318694 (- 50)"

section \<open>The publication classes\<close>

text \<open>
  \<open>class Author\<close> holds one string. The classes \<open>Publication\<close>, \<open>Book\<close>, \<open>Magazine\<close> and
  \<open>EBook\<close> are records, each derived class extending the record of its base, so that a
  member function of \<open>Publication\<close> or \<open>Book\<close> also applies to the classes derived from
  it. The year and the issue are passed around and printed, never computed with, so
  they are plain integers.
\<close>

datatype author = Author (getName: string)

definition Author_print :: "author \<Rightarrow> string" where
  "Author_print a = ''Author: '' @ getName a @ endl"

record publication =
  title :: string
  year :: int
  author :: author

record book = publication +
  genre :: string
  available :: bool

record magazine = publication +
  issue :: int

record ebook = book +
  fileSize :: double

definition getTitle :: "'a publication_scheme \<Rightarrow> string" where
  "getTitle p = title p"

definition getYear :: "'a publication_scheme \<Rightarrow> int" where
  "getYear p = year p"

definition getAuthorName :: "'a publication_scheme \<Rightarrow> string" where
  "getAuthorName p = getName (author p)"

text \<open>The constructors. A new book, and so a new e-book, is available.\<close>

definition Book :: "string \<Rightarrow> int \<Rightarrow> author \<Rightarrow> string \<Rightarrow> book" where
  "Book t y a g = \<lparr>title = t, year = y, author = a, genre = g, available = True\<rparr>"

definition Magazine :: "string \<Rightarrow> int \<Rightarrow> author \<Rightarrow> int \<Rightarrow> magazine" where
  "Magazine t y a i = \<lparr>title = t, year = y, author = a, issue = i\<rparr>"

definition EBook :: "string \<Rightarrow> int \<Rightarrow> author \<Rightarrow> string \<Rightarrow> double \<Rightarrow> ebook" where
  "EBook t y a g s =
     \<lparr>title = t, year = y, author = a, genre = g, available = True, fileSize = s\<rparr>"

definition borrow :: "'a book_scheme \<Rightarrow> 'a book_scheme" where
  "borrow b = b\<lparr>available := False\<rparr>"

definition ret :: "'a book_scheme \<Rightarrow> 'a book_scheme" where
  "ret b = b\<lparr>available := True\<rparr>"

definition isAvailable :: "'a book_scheme \<Rightarrow> bool" where
  "isAvailable b = available b"

text \<open>The text each override of \<open>displayInfo\<close> sends to the stream.\<close>

definition Book_displayInfo :: "book \<Rightarrow> string" where
  "Book_displayInfo b =
     ''Book: '' @ title b @ '' ('' @ show_int (year b) @ ''), '' @ genre b
       @ '' - '' @ getName (author b)
       @ (if available b then '' [Available]'' else '' [Taken]'') @ endl"

definition Magazine_displayInfo :: "magazine \<Rightarrow> string" where
  "Magazine_displayInfo m =
     ''Magazine: '' @ title m @ '' #'' @ show_int (issue m)
       @ '' ('' @ show_int (year m) @ '') - '' @ getName (author m) @ endl"

definition EBook_displayInfo :: "ebook \<Rightarrow> string" where
  "EBook_displayInfo e =
     ''E-Book: '' @ getTitle e @ '' ('' @ show_int (getYear e) @ ''), size: ''
       @ show_double (fileSize e) @ ''MB - '' @ getAuthorName e @ endl"

section \<open>Shared objects\<close>

text \<open>
  Publications live on the heap and are reached through \<open>shared_ptr\<close>s held by the
  library, by readers and by \<open>main\<close> at once. A \<open>shared_ptr\<close> is null (\<open>None\<close>) or keeps
  its object alive, so the store gives an object for every address; cells that nothing
  points to are never read. The object behind a \<open>shared_ptr<Book>\<close> is a \<open>Book\<close> or an
  \<open>EBook\<close>; behind a \<open>shared_ptr<Publication>\<close> it may also be a \<open>Magazine\<close>. The
  store also carries the text written to \<open>cout\<close> so far.
\<close>

type_synonym addr = nat

datatype book_obj = IsBook book | IsEBook ebook

type_synonym book_ptr = "addr option"

datatype pub_ref = BookRef addr | MagazineRef addr

type_synonym pub_ptr = "pub_ref option"

record world =
  books :: "addr \<Rightarrow> book_obj"
  magazines :: "addr \<Rightarrow> magazine"
  next_addr :: addr
  cout :: string

definition print :: "string \<Rightarrow> world \<Rightarrow> world" where
  "print s w = w\<lparr>cout := cout w @ s\<rparr>"

text \<open>
  Member functions called on an object whose static type is \<open>Book\<close>: \<open>borrow\<close>, \<open>ret\<close>,
  \<open>isAvailable\<close> and \<open>getTitle\<close> are not virtual and work on the \<open>Book\<close> part of the
  object, \<open>displayInfo\<close> is virtual and goes to the override of the object's own class.
\<close>

fun obj_borrow :: "book_obj \<Rightarrow> book_obj" where
  "obj_borrow (IsBook b) = IsBook (borrow b)"
| "obj_borrow (IsEBook e) = IsEBook (borrow e)"

fun obj_ret :: "book_obj \<Rightarrow> book_obj" where
  "obj_ret (IsBook b) = IsBook (ret b)"
| "obj_ret (IsEBook e) = IsEBook (ret e)"

fun obj_isAvailable :: "book_obj \<Rightarrow> bool" where
  "obj_isAvailable (IsBook b) = isAvailable b"
| "obj_isAvailable (IsEBook e) = isAvailable e"

fun obj_getTitle :: "book_obj \<Rightarrow> string" where
  "obj_getTitle (IsBook b) = getTitle b"
| "obj_getTitle (IsEBook e) = getTitle e"

fun obj_displayInfo :: "book_obj \<Rightarrow> string" where
  "obj_displayInfo (IsBook b) = Book_displayInfo b"
| "obj_displayInfo (IsEBook e) = EBook_displayInfo e"

text \<open>The calls \<open>b->borrow()\<close>, \<open>b->ret()\<close> and \<open>b->displayInfo()\<close> through a book pointer.\<close>

definition call_borrow :: "addr \<Rightarrow> world \<Rightarrow> world" where
  "call_borrow a w = w\<lparr>books := (books w)(a := obj_borrow (books w a))\<rparr>"

definition call_ret :: "addr \<Rightarrow> world \<Rightarrow> world" where
  "call_ret a w = w\<lparr>books := (books w)(a := obj_ret (books w a))\<rparr>"

definition call_displayInfo :: "addr \<Rightarrow> world \<Rightarrow> world" where
  "call_displayInfo a w = print (obj_displayInfo (books w a)) w"

text \<open>The call \<open>p->displayInfo()\<close> through a publication pointer, and the line it writes.\<close>

definition pub_text :: "world \<Rightarrow> pub_ref \<Rightarrow> string" where
  "pub_text w p =
     (case p of BookRef a \<Rightarrow> obj_displayInfo (books w a)
              | MagazineRef a \<Rightarrow> Magazine_displayInfo (magazines w a))"

definition displayInfo :: "pub_ref \<Rightarrow> world \<Rightarrow> world" where
  "displayInfo p w = print (pub_text w p) w"

text \<open>
  The loop \<open>for (auto& x : xs) if (x) x->f();\<close> that \<open>returnAll\<close>, \<open>listBooks\<close>, \<open>showAll\<close>
  and \<open>printList\<close> share: \<open>f\<close> is called on the entries in sequence order, a null entry
  is passed over.
\<close>

fun for_each :: "('r \<Rightarrow> world \<Rightarrow> world) \<Rightarrow> 'r option list \<Rightarrow> world \<Rightarrow> world" where
  "for_each f [] w = w"
| "for_each f (None # xs) w = for_each f xs w"
| "for_each f (Some x # xs) w = for_each f xs (f x w)"

text \<open>The entries of a sequence of pointers that are not null, in sequence order.\<close>

fun non_null :: "'r option list \<Rightarrow> 'r list" where
  "non_null [] = []"
| "non_null (None # xs) = non_null xs"
| "non_null (Some x # xs) = x # non_null xs"

text \<open>\<open>make_shared\<close> puts the new object into a cell that was not in use.\<close>

definition make_shared_Book :: "book_obj \<Rightarrow> world \<Rightarrow> addr \<times> world" where
  "make_shared_Book obj w =
     (next_addr w, w\<lparr>books := (books w)(next_addr w := obj), next_addr := Suc (next_addr w)\<rparr>)"

definition make_shared_Magazine :: "magazine \<Rightarrow> world \<Rightarrow> addr \<times> world" where
  "make_shared_Magazine m w =
     (next_addr w,
      w\<lparr>magazines := (magazines w)(next_addr w := m), next_addr := Suc (next_addr w)\<rparr>)"

section \<open>Readers\<close>

record reader =
  name :: string
  borrowed :: "book_ptr list"

definition Reader :: "string \<Rightarrow> reader" where
  "Reader n = \<lparr>name = n, borrowed = []\<rparr>"

definition borrowBook :: "book_ptr \<Rightarrow> reader \<Rightarrow> world \<Rightarrow> reader \<times> world" where
  "borrowBook b r w =
     (case b of
        None \<Rightarrow> (r, print (''Invalid book pointer'' @ endl) w)
      | Some a \<Rightarrow>
          if obj_isAvailable (books w a)
          then (r\<lparr>borrowed := borrowed r @ [b]\<rparr>,
                let w1 = call_borrow a w
                in print (name r @ '' borrowed '' @ dquote @ obj_getTitle (books w1 a)
                          @ dquote @ endl) w1)
          else (r, print (''Book not available!'' @ endl) w))"

definition returnAll :: "reader \<Rightarrow> world \<Rightarrow> reader \<times> world" where
  "returnAll r w = (r\<lparr>borrowed := []\<rparr>, for_each call_ret (borrowed r) w)"

definition listBooks :: "reader \<Rightarrow> world \<Rightarrow> world" where
  "listBooks r w =
     for_each call_displayInfo (borrowed r) (print (name r @ '' borrowed books:'' @ endl) w)"

text \<open>A sequence of calls on one reader.\<close>

datatype reader_op = BorrowBook book_ptr | ReturnAll | ListBooks

fun reader_step :: "reader_op \<Rightarrow> reader \<times> world \<Rightarrow> reader \<times> world" where
  "reader_step (BorrowBook b) (r, w) = borrowBook b r w"
| "reader_step ReturnAll (r, w) = returnAll r w"
| "reader_step ListBooks (r, w) = (r, listBooks r w)"

definition run_ops :: "reader_op list \<Rightarrow> reader \<Rightarrow> world \<Rightarrow> reader \<times> world" where
  "run_ops ops r w = fold reader_step ops (r, w)"

text \<open>
  The invariant of a reader's list: no entry repeats, none is null, and every book
  in it is marked unavailable.
\<close>

definition held_unavailable :: "reader \<Rightarrow> world \<Rightarrow> bool" where
  "held_unavailable rd w =
     (distinct (borrowed rd) \<and> None \<notin> set (borrowed rd)
      \<and> list_all (\<lambda>a. \<not> obj_isAvailable (books w a)) (non_null (borrowed rd)))"

text \<open>
  Several readers at work on one store: each call names the reader that makes it.
  \<open>lists_apart\<close> is the invariant of all of them together.
\<close>

fun system_step :: "nat \<times> reader_op \<Rightarrow> (nat \<Rightarrow> reader) \<times> world \<Rightarrow> (nat \<Rightarrow> reader) \<times> world" where
  "system_step (i, x) (rs, w) = (case reader_step x (rs i, w) of (rd, w') \<Rightarrow> (rs(i := rd), w'))"

definition run_system :: "(nat \<times> reader_op) list \<Rightarrow> (nat \<Rightarrow> reader) \<Rightarrow> world \<Rightarrow> (nat \<Rightarrow> reader) \<times> world" where
  "run_system ops rs w = fold system_step ops (rs, w)"

definition lists_apart :: "(nat \<Rightarrow> reader) \<Rightarrow> world \<Rightarrow> bool" where
  "lists_apart rs w =
     ((\<forall>i. held_unavailable (rs i) w)
      \<and> (\<forall>i j. i \<noteq> j \<longrightarrow> set (borrowed (rs i)) \<inter> set (borrowed (rs j)) = {}))"

section \<open>The library, the list printer and the administrator\<close>

record library =
  publications :: "pub_ptr list"

definition Library :: library where
  "Library = \<lparr>publications = []\<rparr>"

definition addPublication :: "pub_ptr \<Rightarrow> library \<Rightarrow> library" where
  "addPublication p lib = lib\<lparr>publications := publications lib @ [p]\<rparr>"

definition showAll :: "library \<Rightarrow> world \<Rightarrow> world" where
  "showAll lib w =
     for_each displayInfo (publications lib)
       (print (endl @ ''=== Library Collection ==='' @ endl) w)"

text \<open>
  The template \<open>printList\<close> works for every element type that can be tested for null
  and has \<open>displayInfo\<close>; the member function of the instance is the argument \<open>disp\<close>.
\<close>

definition printList :: "('r \<Rightarrow> world \<Rightarrow> world) \<Rightarrow> 'r option list \<Rightarrow> string \<Rightarrow> world \<Rightarrow> world" where
  "printList disp list ttl w =
     for_each disp list (print (endl @ ''=== '' @ ttl @ '' ==='' @ endl) w)"

record user =
  user_name :: string

definition Admin :: "string \<Rightarrow> user" where
  "Admin n = \<lparr>user_name = n\<rparr>"

definition showRole :: "user \<Rightarrow> world \<Rightarrow> world" where
  "showRole u w = print (user_name u @ '' is Admin'' @ endl) w"

text \<open>\<open>removeBook\<close> gets the library by reference: the library comes back with the store.\<close>

definition removeBook :: "user \<Rightarrow> library \<Rightarrow> world \<Rightarrow> library \<times> world" where
  "removeBook u lib w = (lib, print (user_name u @ '' removed a book (simulated)'' @ endl) w)"

section \<open>The scenario of \<open>main\<close>\<close>

text \<open>
  \<open>main\<close> in three parts, so that the states in between can be named: the
  construction of the objects up to the reader, the call of \<open>borrowBook\<close>, and the rest.
\<close>

record locals =
  main_b1 :: addr
  main_b2 :: addr
  main_m1 :: addr
  main_lib :: library
  main_r :: reader

definition main_setup :: "world \<Rightarrow> locals \<times> world" where
  "main_setup w0 =
     (let a1 = Author ''Herbert Schildt'';
          a2 = Author ''Bjarne Stroustrup'';
          lib0 = Library;
          (b1, w1) = make_shared_Book (IsBook (Book ''C++ for Beginners'' 2020 a1 ''Education'')) w0;
          (b2, w2) = make_shared_Book
             (IsEBook (EBook ''The C++ Programming Language'' 2013 a2 ''Programming'' literal_5_6)) w1;
          (m1, w3) = make_shared_Magazine (Magazine ''TechWorld'' 2025 a1 12) w2;
          lib1 = addPublication (Some (BookRef b1)) lib0;
          lib2 = addPublication (Some (BookRef b2)) lib1;
          lib3 = addPublication (Some (MagazineRef m1)) lib2
      in (\<lparr>main_b1 = b1, main_b2 = b2, main_m1 = m1, main_lib = lib3,
           main_r = Reader ''Ivan Petrov''\<rparr>, w3))"

definition main_borrow :: "locals \<times> world \<Rightarrow> locals \<times> world" where
  "main_borrow s =
     (case s of (l, w) \<Rightarrow>
        (case borrowBook (Some (main_b1 l)) (main_r l) w of
           (r', w') \<Rightarrow> (l\<lparr>main_r := r'\<rparr>, w')))"

definition main_rest :: "locals \<times> world \<Rightarrow> int \<times> world" where
  "main_rest s =
     (case s of (l, w) \<Rightarrow>
        (let w1 = listBooks (main_r l) w;
             w2 = showAll (main_lib l) w1;
             admin = Admin ''Olena'';
             w3 = showRole admin w2;
             all = [Some (BookRef (main_b1 l)), Some (BookRef (main_b2 l)),
                    Some (MagazineRef (main_m1 l))];
             w4 = printList displayInfo all ''All Publications (via template)'' w3
         in (0, w4)))"

definition main :: "world \<Rightarrow> int \<times> world" where
  "main w0 = main_rest (main_borrow (main_setup w0))"

text \<open>
  Stores to evaluate the functions on: one in which nothing has been allocated and
  nothing printed, its cells filled with an empty book and an empty magazine, and the
  one \<open>main\<close> has built from it when it reaches the call of \<open>borrowBook\<close>, with the
  book in cell 0 and the e-book in cell 1.
\<close>

definition blank_world :: world where
  "blank_world =
     \<lparr>books = (\<lambda>_. IsBook (Book [] 0 (Author []) [])),
      magazines = (\<lambda>_. Magazine [] 0 (Author []) 0),
      next_addr = 0, cout = []\<rparr>"

definition sample_world :: world where
  "sample_world = snd (main_setup blank_world)"

section \<open>Basic facts about the store\<close>

lemma print_fields [simp]:
  "books (print s w) = books w"
  "magazines (print s w) = magazines w"
  "next_addr (print s w) = next_addr w"
  "cout (print s w) = cout w @ s"
  by (simp_all add: print_def)

lemma print_print: "print s (print t w) = print (t @ s) w"
  by (simp add: print_def)

lemma call_borrow_fields [simp]:
  "books (call_borrow a w) = (books w)(a := obj_borrow (books w a))"
  "magazines (call_borrow a w) = magazines w"
  "next_addr (call_borrow a w) = next_addr w"
  "cout (call_borrow a w) = cout w"
  by (simp_all add: call_borrow_def)

lemma call_ret_fields [simp]:
  "books (call_ret a w) = (books w)(a := obj_ret (books w a))"
  "magazines (call_ret a w) = magazines w"
  "next_addr (call_ret a w) = next_addr w"
  "cout (call_ret a w) = cout w"
  by (simp_all add: call_ret_def)

lemma obj_borrow_facts [simp]:
  "\<not> obj_isAvailable (obj_borrow x)"
  "obj_getTitle (obj_borrow x) = obj_getTitle x"
  "obj_borrow (obj_borrow x) = obj_borrow x"
  by (cases x; simp add: isAvailable_def borrow_def getTitle_def)+

lemma obj_ret_facts [simp]:
  "obj_isAvailable (obj_ret x)"
  "obj_getTitle (obj_ret x) = obj_getTitle x"
  "obj_ret (obj_ret x) = obj_ret x"
  by (cases x; simp add: isAvailable_def ret_def getTitle_def)+

lemma set_non_null [simp]: "set (non_null xs) = {x. Some x \<in> set xs}"
  by (induction xs rule: non_null.induct) auto

subsection \<open>The loop over a sequence of pointers\<close>

lemma for_each_fold: "for_each f xs w = fold f (non_null xs) w"
proof (induction xs arbitrary: w)
  case Nil
  show ?case by simp
next
  case (Cons x xs)
  show ?case by (cases x) (simp_all add: Cons.IH)
qed

lemma books_for_each_frame:
  assumes "\<And>x v. books (f x v) = books v"
  shows "books (for_each f xs w) = books w"
proof (induction xs arbitrary: w)
  case Nil
  show ?case by simp
next
  case (Cons x xs)
  show ?case by (cases x) (simp_all add: Cons.IH assms)
qed

lemma books_for_each_call_displayInfo [simp]:
  "books (for_each call_displayInfo bs w) = books w"
  by (rule books_for_each_frame) (simp add: call_displayInfo_def)

lemma books_listBooks [simp]: "books (listBooks rd w) = books w"
  by (simp add: listBooks_def)

lemma pub_text_print [simp]: "pub_text (print s w) p = pub_text w p"
  by (cases p) (simp_all add: pub_text_def)

lemma fold_displayInfo:
  "fold displayInfo ps (print s w) = print (s @ concat (map (pub_text w) ps)) w"
proof (induction ps arbitrary: s)
  case Nil
  show ?case by simp
next
  case (Cons p ps)
  have "fold displayInfo (p # ps) (print s w) = fold displayInfo ps (print (s @ pub_text w p) w)"
    by (simp add: displayInfo_def print_print)
  also have "\<dots> = print ((s @ pub_text w p) @ concat (map (pub_text w) ps)) w"
    by (rule Cons.IH)
  finally show ?case by simp
qed

lemma fold_call_displayInfo:
  "fold call_displayInfo as (print s w)
     = print (s @ concat (map (\<lambda>a. obj_displayInfo (books w a)) as)) w"
proof (induction as arbitrary: s)
  case Nil
  show ?case by simp
next
  case (Cons a as)
  have "fold call_displayInfo (a # as) (print s w)
          = fold call_displayInfo as (print (s @ obj_displayInfo (books w a)) w)"
    by (simp add: call_displayInfo_def print_print)
  also have "\<dots> = print ((s @ obj_displayInfo (books w a))
                        @ concat (map (\<lambda>a. obj_displayInfo (books w a)) as)) w"
    by (rule Cons.IH)
  finally show ?case by simp
qed

lemma listBooks_eq:
  "listBooks rd w = print (name rd @ '' borrowed books:'' @ endl
      @ concat (map (\<lambda>a. obj_displayInfo (books w a)) (non_null (borrowed rd)))) w"
  by (simp add: listBooks_def for_each_fold fold_call_displayInfo)

lemma for_each_call_ret_fields:
  "books (for_each call_ret bs w)
     = (\<lambda>a. if Some a \<in> set bs then obj_ret (books w a) else books w a)"
  "magazines (for_each call_ret bs w) = magazines w"
  "next_addr (for_each call_ret bs w) = next_addr w"
  "cout (for_each call_ret bs w) = cout w"
proof (induction bs arbitrary: w)
  case Nil
  { case 1 show ?case by simp }
  { case 2 show ?case by simp }
  { case 3 show ?case by simp }
  { case 4 show ?case by simp }
next
  case (Cons b bs)
  { case 1 show ?case by (cases b) (auto simp: Cons.IH) }
  { case 2 show ?case by (cases b) (simp_all add: Cons.IH) }
  { case 3 show ?case by (cases b) (simp_all add: Cons.IH) }
  { case 4 show ?case by (cases b) (simp_all add: Cons.IH) }
qed

subsection \<open>Numbers as the stream writes them\<close>

text \<open>
  \<open>ilog10\<close> and \<open>decimal_exponent\<close> compute what their comments say: with \<open>x\<close> the
  result, \<open>10 ^ x \<le> n / d < 10 ^ (x + 1)\<close>, stated without fractions.
\<close>

lemma ilog10_bounds: "0 < n \<Longrightarrow> 10 ^ ilog10 n \<le> n \<and> n < 10 ^ Suc (ilog10 n)"
proof (induction n rule: ilog10.induct)
  case (1 n)
  show ?case
  proof (cases "n < 10")
    case True
    with "1.prems" show ?thesis by (simp add: ilog10.simps)
  next
    case False
    then have "0 < n div 10" by simp
    with "1.IH" False have IH: "10 ^ ilog10 (n div 10) \<le> n div 10"
      "n div 10 < 10 ^ Suc (ilog10 (n div 10))"
      by simp_all
    have e: "ilog10 n = Suc (ilog10 (n div 10))"
      using False by (simp add: ilog10.simps)
    from IH(1) have "10 * 10 ^ ilog10 (n div 10) \<le> 10 * (n div 10)" by simp
    also have "\<dots> \<le> n" by simp
    finally have lo: "10 ^ ilog10 n \<le> n" by (simp add: e)
    from IH(2) have "Suc (n div 10) \<le> 10 ^ Suc (ilog10 (n div 10))" by simp
    then have "10 * Suc (n div 10) \<le> 10 * 10 ^ Suc (ilog10 (n div 10))"
      by (rule mult_le_mono2)
    moreover have "n < 10 * Suc (n div 10)" by simp
    ultimately have "n < 10 ^ Suc (ilog10 n)" by (simp add: e)
    with lo show ?thesis by simp
  qed
qed

lemma decimal_exponent_bounds:
  assumes "0 < n" and "0 < d"
  shows "d \<le> n \<Longrightarrow> decimal_exponent n d = int (ilog10 (n div d))
           \<and> d * 10 ^ ilog10 (n div d) \<le> n \<and> n < d * 10 ^ Suc (ilog10 (n div d))"
    and "n < d \<Longrightarrow> decimal_exponent n d = - int (Suc (ilog10 ((d - 1) div n)))
           \<and> n * 10 ^ ilog10 ((d - 1) div n) < d \<and> d \<le> n * 10 ^ Suc (ilog10 ((d - 1) div n))"
proof -
  assume le: "d \<le> n"
  with assms have q: "0 < n div d" by (simp add: div_greater_zero_iff)
  from ilog10_bounds [OF q] have b: "10 ^ ilog10 (n div d) \<le> n div d"
    "Suc (n div d) \<le> 10 ^ Suc (ilog10 (n div d))" by simp_all
  from b(1) have "d * 10 ^ ilog10 (n div d) \<le> d * (n div d)" by (rule mult_le_mono2)
  also have "\<dots> \<le> n" by simp
  finally have lo: "d * 10 ^ ilog10 (n div d) \<le> n" .
  have "n < d * Suc (n div d)" using assms(2) dividend_less_times_div [of d n] by simp
  also from b(2) have "\<dots> \<le> d * 10 ^ Suc (ilog10 (n div d))" by (rule mult_le_mono2)
  finally have hi: "n < d * 10 ^ Suc (ilog10 (n div d))" .
  from le lo hi show "decimal_exponent n d = int (ilog10 (n div d))
           \<and> d * 10 ^ ilog10 (n div d) \<le> n \<and> n < d * 10 ^ Suc (ilog10 (n div d))"
    by (simp add: decimal_exponent_def)
next
  assume lt: "n < d"
  with assms have q: "0 < (d - 1) div n" by (simp add: div_greater_zero_iff)
  from ilog10_bounds [OF q] have b: "10 ^ ilog10 ((d - 1) div n) \<le> (d - 1) div n"
    "Suc ((d - 1) div n) \<le> 10 ^ Suc (ilog10 ((d - 1) div n))" by simp_all
  from b(1) have "n * 10 ^ ilog10 ((d - 1) div n) \<le> n * ((d - 1) div n)" by (rule mult_le_mono2)
  also have "\<dots> \<le> d - 1" by simp
  also have "\<dots> < d" using assms(2) by simp
  finally have lo: "n * 10 ^ ilog10 ((d - 1) div n) < d" .
  have "d - 1 < n * Suc ((d - 1) div n)" using assms(1) dividend_less_times_div [of n "d - 1"] by simp
  also from b(2) have "\<dots> \<le> n * 10 ^ Suc (ilog10 ((d - 1) div n))" by (rule mult_le_mono2)
  finally have hi: "d \<le> n * 10 ^ Suc (ilog10 ((d - 1) div n))" by simp
  from lt lo hi show "decimal_exponent n d = - int (Suc (ilog10 ((d - 1) div n)))
           \<and> n * 10 ^ ilog10 ((d - 1) div n) < d \<and> d \<le> n * 10 ^ Suc (ilog10 ((d - 1) div n))"
    by (simp add: decimal_exponent_def)
qed

text \<open>
  The value chosen for the literal \<open>5.6\<close> has a 53-bit significand and lies within
  half a unit in the last place of 56/10, that is \<open>\<bar>56/10 - m / 2^50\<bar> < 1 / 2^51\<close>,
  written here without fractions.
\<close>

lemma literal_5_6_nearest:
  "literal_5_6 = Finite False 6305039478318694 (- 50)
   \<and> (2::nat) ^ 52 \<le> 6305039478318694 \<and> (6305039478318694::nat) < 2 ^ 53
   \<and> \<bar>56 * 2 ^ 51 - 20 * 6305039478318694\<bar> < (10::int)"
  by (simp add: literal_5_6_def)

lemma show_int_samples:
  "show_int 2020 = ''2020''" "show_int 2013 = ''2013''" "show_int 2025 = ''2025''"
  "show_int 12 = ''12''"
  by (simp_all add: show_int_def digits.simps digit_def)

lemma digits_560000: "digits 560000 = ''560000''"
  by (simp add: digits.simps digit_def)

lemma significand_5_6: "significand 6 6305039478318694 1125899906842624 = (560000, 0)"
  by (simp add: significand_def decimal_exponent_def ilog10.simps round_half_even_def Let_def)

lemma show_double_5_6: "show_double literal_5_6 = ''5.6''"
  by (simp add: show_double_def literal_5_6_def show_magnitude_def significand_5_6
      fixed_style_def with_fraction_def strip_zeros_def digits_560000)

subsection \<open>The invariant of a reader's list\<close>

lemma held_unavailable_iff:
  "held_unavailable rd w \<longleftrightarrow>
     distinct (borrowed rd) \<and> None \<notin> set (borrowed rd)
     \<and> (\<forall>a. Some a \<in> set (borrowed rd) \<longrightarrow> \<not> obj_isAvailable (books w a))"
  by (simp add: held_unavailable_def list_all_iff)

lemma held_unavailable_borrowBook:
  assumes "held_unavailable rd w"
  shows "held_unavailable (fst (borrowBook b rd w)) (snd (borrowBook b rd w))"
proof (cases b)
  case None
  with assms show ?thesis
    by (simp add: borrowBook_def held_unavailable_iff)
next
  case (Some a)
  show ?thesis
  proof (cases "obj_isAvailable (books w a)")
    case False
    with Some assms show ?thesis
      by (simp add: borrowBook_def held_unavailable_iff)
  next
    case True
    with assms have "Some a \<notin> set (borrowed rd)"
      by (auto simp: held_unavailable_iff)
    with Some True assms show ?thesis
      by (auto simp: borrowBook_def held_unavailable_iff)
  qed
qed

lemma held_unavailable_step:
  assumes "held_unavailable (fst s) (snd s)"
  shows "held_unavailable (fst (reader_step x s)) (snd (reader_step x s))"
proof (cases s)
  case (Pair rd w)
  with assms have h: "held_unavailable rd w" by simp
  show ?thesis
  proof (cases x)
    case (BorrowBook b)
    with Pair held_unavailable_borrowBook [OF h] show ?thesis by simp
  next
    case ReturnAll
    with Pair show ?thesis by (simp add: returnAll_def held_unavailable_iff)
  next
    case ListBooks
    with Pair h show ?thesis by (simp add: listBooks_def held_unavailable_iff)
  qed
qed

lemma held_unavailable_fold:
  "held_unavailable (fst s) (snd s) \<Longrightarrow>
   held_unavailable (fst (fold reader_step ops s)) (snd (fold reader_step ops s))"
  by (induction ops arbitrary: s) (simp_all add: held_unavailable_step)

lemma held_unavailable_run_ops:
  "borrowed rd = [] \<Longrightarrow>
   held_unavailable (fst (run_ops ops rd w)) (snd (run_ops ops rd w))"
  unfolding run_ops_def
  by (rule held_unavailable_fold) (simp add: held_unavailable_iff)

subsection \<open>Readers sharing the store\<close>

text \<open>
  The invariant survives calls made by other readers in between: as long as every
  reader started with an empty list, the lists stay pairwise disjoint and every held
  book stays unavailable.
\<close>

lemma held_unavailable_cong:
  assumes "held_unavailable rd w"
    and "\<And>a. Some a \<in> set (borrowed rd) \<Longrightarrow> books w' a = books w a"
  shows "held_unavailable rd w'"
  using assms by (simp add: held_unavailable_iff)

lemma reader_step_effect:
  assumes "reader_step x (rd, w) = (rd', w')"
  shows "(borrowed rd' = borrowed rd \<and> books w' = books w)
       \<or> (\<exists>a. x = BorrowBook (Some a) \<and> obj_isAvailable (books w a)
              \<and> borrowed rd' = borrowed rd @ [Some a]
              \<and> books w' = (books w)(a := obj_borrow (books w a)))
       \<or> (x = ReturnAll \<and> borrowed rd' = []
              \<and> books w' = (\<lambda>a. if Some a \<in> set (borrowed rd) then obj_ret (books w a)
                                   else books w a))"
proof (cases x)
  case (BorrowBook b)
  with assms show ?thesis
    by (cases b) (auto simp: borrowBook_def split: if_splits)
next
  case ReturnAll
  with assms show ?thesis
    by (auto simp: returnAll_def for_each_call_ret_fields)
next
  case ListBooks
  with assms show ?thesis
    by auto
qed

lemma lists_apart_step:
  assumes inv: "lists_apart (fst s) (snd s)"
  shows "lists_apart (fst (system_step c s)) (snd (system_step c s))"
proof -
  obtain i x where c: "c = (i, x)" by (cases c)
  obtain rs w where s: "s = (rs, w)" by (cases s)
  obtain rd' w' where st: "reader_step x (rs i, w) = (rd', w')"
    by (cases "reader_step x (rs i, w)")
  from inv s have held: "\<And>j. held_unavailable (rs j) w"
    and apart: "\<And>j k. j \<noteq> k \<Longrightarrow> set (borrowed (rs j)) \<inter> set (borrowed (rs k)) = {}"
    by (simp_all add: lists_apart_def)
  have own: "held_unavailable rd' w'"
    using held_unavailable_step [of "(rs i, w)" x] held [of i] st by simp
  from reader_step_effect [OF st]
  have others: "\<And>j. j \<noteq> i \<Longrightarrow>
      held_unavailable (rs j) w' \<and> set (borrowed rd') \<inter> set (borrowed (rs j)) = {}"
  proof (elim disjE exE conjE)
    fix j assume "j \<noteq> i" "borrowed rd' = borrowed (rs i)" "books w' = books w"
    with held [of j] apart [of i j]
    show "held_unavailable (rs j) w' \<and> set (borrowed rd') \<inter> set (borrowed (rs j)) = {}"
      by (simp add: held_unavailable_iff)
  next
    fix j a assume j: "j \<noteq> i" and av: "obj_isAvailable (books w a)"
      and l: "borrowed rd' = borrowed (rs i) @ [Some a]"
      and b: "books w' = (books w)(a := obj_borrow (books w a))"
    from held [of j] av have "Some a \<notin> set (borrowed (rs j))"
      by (auto simp: held_unavailable_iff)
    with held [of j] apart [of i j] j l b
    show "held_unavailable (rs j) w' \<and> set (borrowed rd') \<inter> set (borrowed (rs j)) = {}"
      by (auto simp: held_unavailable_iff)
  next
    fix j assume j: "j \<noteq> i" and l: "borrowed rd' = []"
      and b: "books w' = (\<lambda>a. if Some a \<in> set (borrowed (rs i)) then obj_ret (books w a)
                                   else books w a)"
    from apart [of i j] j have "\<And>a. Some a \<in> set (borrowed (rs j)) \<Longrightarrow> Some a \<notin> set (borrowed (rs i))"
      by auto
    with held [of j] l b
    show "held_unavailable (rs j) w' \<and> set (borrowed rd') \<inter> set (borrowed (rs j)) = {}"
      by (simp add: held_unavailable_iff)
  qed
  have "lists_apart (rs(i := rd')) w'"
    unfolding lists_apart_def
  proof (intro conjI allI impI)
    fix j show "held_unavailable ((rs(i := rd')) j) w'"
      using own others [of j] by (cases "j = i") simp_all
  next
    fix j k :: nat assume "j \<noteq> k"
    then show "set (borrowed ((rs(i := rd')) j)) \<inter> set (borrowed ((rs(i := rd')) k)) = {}"
      using others [of j] others [of k] apart [of j k]
      by (cases "j = i"; cases "k = i") (auto simp: Int_commute)
  qed
  with c s st show ?thesis by simp
qed

lemma lists_apart_fold:
  "lists_apart (fst s) (snd s) \<Longrightarrow>
   lists_apart (fst (fold system_step ops s)) (snd (fold system_step ops s))"
  by (induction ops arbitrary: s) (simp_all add: lists_apart_step)

lemma run_system_held_unavailable:
  assumes "\<And>i. borrowed (rs i) = []"
  shows "held_unavailable (fst (run_system ops rs w) i) (snd (run_system ops rs w))"
proof -
  have "lists_apart rs w"
    by (simp add: lists_apart_def held_unavailable_iff assms)
  then have "lists_apart (fst (run_system ops rs w)) (snd (run_system ops rs w))"
    unfolding run_system_def using lists_apart_fold [of "(rs, w)" ops] by simp
  then show ?thesis
    by (simp add: lists_apart_def)
qed

lemma run_system_lists_apart:
  assumes "\<And>i. borrowed (rs i) = []" and "i \<noteq> j"
  shows "set (borrowed (fst (run_system ops rs w) i))
           \<inter> set (borrowed (fst (run_system ops rs w) j)) = {}"
proof -
  have "lists_apart rs w"
    by (simp add: lists_apart_def held_unavailable_iff assms(1))
  then have "lists_apart (fst (run_system ops rs w)) (snd (run_system ops rs w))"
    unfolding run_system_def using lists_apart_fold [of "(rs, w)" ops] by simp
  with assms(2) show ?thesis
    by (simp add: lists_apart_def)
qed

text \<open>With calls of one reader only, the shared store behaves as that reader's own.\<close>

lemma run_system_one_reader:
  "fst (run_system (map (Pair i) ops) rs w) i = fst (run_ops ops (rs i) w)
   \<and> snd (run_system (map (Pair i) ops) rs w) = snd (run_ops ops (rs i) w)"
proof (induction ops arbitrary: rs w)
  case Nil
  show ?case by (simp add: run_system_def run_ops_def)
next
  case (Cons x ops)
  obtain rd' w' where st: "reader_step x (rs i, w) = (rd', w')"
    by (cases "reader_step x (rs i, w)")
  have a: "run_system (map (Pair i) (x # ops)) rs w
             = run_system (map (Pair i) ops) (rs(i := rd')) w'"
    by (simp add: run_system_def st)
  have b: "run_ops (x # ops) (rs i) w = run_ops ops rd' w'"
    by (simp add: run_ops_def st)
  have c: "(rs(i := rd')) i = rd'"
    by simp
  from Cons.IH [of "rs(i := rd')" w'] show ?case
    unfolding a b c .
qed

subsection \<open>The lines of the sample publications\<close>

lemma sample_lines:
  "Book_displayInfo (borrow (Book ''C++ for Beginners'' 2020 (Author ''Herbert Schildt'') ''Education''))
     = ''Book: C++ for Beginners (2020), Education - Herbert Schildt [Taken]'' @ endl"
  "EBook_displayInfo (EBook ''The C++ Programming Language'' 2013 (Author ''Bjarne Stroustrup'')
                            ''Programming'' literal_5_6)
     = ''E-Book: The C++ Programming Language (2013), size: 5.6MB - Bjarne Stroustrup'' @ endl"
  "Magazine_displayInfo (Magazine ''TechWorld'' 2025 (Author ''Herbert Schildt'') 12)
     = ''Magazine: TechWorld #12 (2025) - Herbert Schildt'' @ endl"
  by (simp_all add: Book_displayInfo_def EBook_displayInfo_def Magazine_displayInfo_def
      Book_def EBook_def Magazine_def borrow_def getTitle_def getYear_def getAuthorName_def
      show_int_samples show_double_5_6)

subsection \<open>What the display loops write\<close>

lemma showAll_eq:
  "showAll lb w = print (endl @ ''=== Library Collection ==='' @ endl
                         @ concat (map (pub_text w) (non_null (publications lb)))) w"
  by (simp add: showAll_def for_each_fold fold_displayInfo)

lemma printList_displayInfo_eq:
  "printList displayInfo ps ttl w
     = print (endl @ ''=== '' @ ttl @ '' ==='' @ endl @ concat (map (pub_text w) (non_null ps))) w"
  by (simp add: printList_def for_each_fold fold_displayInfo)

lemma publications_fold_addPublication:
  "publications (fold addPublication ps lb) = publications lb @ ps"
  by (induction ps arbitrary: lb) (simp_all add: addPublication_def)

subsection \<open>The run of \<open>main\<close>\<close>

lemma main_setup_eq:
  "main_setup w0 =
     (\<lparr>main_b1 = next_addr w0, main_b2 = Suc (next_addr w0), main_m1 = Suc (Suc (next_addr w0)),
       main_lib = \<lparr>publications = [Some (BookRef (next_addr w0)), Some (BookRef (Suc (next_addr w0))),
                                   Some (MagazineRef (Suc (Suc (next_addr w0))))]\<rparr>,
       main_r = Reader ''Ivan Petrov''\<rparr>,
      w0\<lparr>books := (books w0)
              (next_addr w0 :=
                 IsBook (Book ''C++ for Beginners'' 2020 (Author ''Herbert Schildt'') ''Education''),
               Suc (next_addr w0) :=
                 IsEBook (EBook ''The C++ Programming Language'' 2013 (Author ''Bjarne Stroustrup'')
                            ''Programming'' literal_5_6)),
          magazines := (magazines w0)
              (Suc (Suc (next_addr w0)) := Magazine ''TechWorld'' 2025 (Author ''Herbert Schildt'') 12),
          next_addr := Suc (Suc (Suc (next_addr w0)))\<rparr>)"
  by (simp add: main_setup_def make_shared_Book_def make_shared_Magazine_def
      addPublication_def Library_def Let_def)

text \<open>The whole text \<open>main\<close> prints, and its exit status.\<close>

lemma main_transcript:
  "fst (main w0) = 0
   \<and> cout (snd (main w0))
     = cout w0
       @ ''Ivan Petrov borrowed '' @ dquote @ ''C++ for Beginners'' @ dquote @ endl
       @ ''Ivan Petrov borrowed books:'' @ endl
       @ ''Book: C++ for Beginners (2020), Education - Herbert Schildt [Taken]'' @ endl
       @ endl @ ''=== Library Collection ==='' @ endl
       @ ''Book: C++ for Beginners (2020), Education - Herbert Schildt [Taken]'' @ endl
       @ ''E-Book: The C++ Programming Language (2013), size: 5.6MB - Bjarne Stroustrup'' @ endl
       @ ''Magazine: TechWorld #12 (2025) - Herbert Schildt'' @ endl
       @ ''Olena is Admin'' @ endl
       @ endl @ ''=== All Publications (via template) ==='' @ endl
       @ ''Book: C++ for Beginners (2020), Education - Herbert Schildt [Taken]'' @ endl
       @ ''E-Book: The C++ Programming Language (2013), size: 5.6MB - Bjarne Stroustrup'' @ endl
       @ ''Magazine: TechWorld #12 (2025) - Herbert Schildt'' @ endl"
proof -
  obtain l w where s: "main_setup w0 = (l, w)"
    by (cases "main_setup w0")
  from s have l: "l = fst (main_setup w0)" and w: "w = snd (main_setup w0)"
    by simp_all
  have b1: "books w (main_b1 l)
      = IsBook (Book ''C++ for Beginners'' 2020 (Author ''Herbert Schildt'') ''Education'')"
    and b2: "books w (main_b2 l)
      = IsEBook (EBook ''The C++ Programming Language'' 2013 (Author ''Bjarne Stroustrup'')
                            ''Programming'' literal_5_6)"
    and m1: "magazines w (main_m1 l) = Magazine ''TechWorld'' 2025 (Author ''Herbert Schildt'') 12"
    and ne: "main_b2 l \<noteq> main_b1 l"
    and lb: "publications (main_lib l)
               = [Some (BookRef (main_b1 l)), Some (BookRef (main_b2 l)), Some (MagazineRef (main_m1 l))]"
    and rd: "main_r l = Reader ''Ivan Petrov''"
    and c0: "cout w = cout w0"
    by (simp_all add: l w main_setup_eq)
  have av: "obj_isAvailable (books w (main_b1 l))"
    by (simp add: b1 Book_def isAvailable_def)
  define w' where "w' = print (''Ivan Petrov borrowed '' @ dquote @ ''C++ for Beginners'' @ dquote @ endl)
                          (call_borrow (main_b1 l) w)"
  define l' where "l' = l\<lparr>main_r := (main_r l)\<lparr>borrowed := [Some (main_b1 l)]\<rparr>\<rparr>"
  have t: "main_borrow (l, w) = (l', w')"
    using av by (simp add: main_borrow_def borrowBook_def w'_def l'_def rd Reader_def b1 Book_def getTitle_def borrow_def)
  have t1: "pub_text w' (BookRef (main_b1 l))
              = ''Book: C++ for Beginners (2020), Education - Herbert Schildt [Taken]'' @ endl"
    and t2: "pub_text w' (BookRef (main_b2 l))
              = ''E-Book: The C++ Programming Language (2013), size: 5.6MB - Bjarne Stroustrup'' @ endl"
    and t3: "pub_text w' (MagazineRef (main_m1 l))
              = ''Magazine: TechWorld #12 (2025) - Herbert Schildt'' @ endl"
    by (simp_all add: w'_def pub_text_def b1 b2 m1 ne sample_lines)
  have t4: "obj_displayInfo (books w' (main_b1 l))
              = ''Book: C++ for Beginners (2020), Education - Herbert Schildt [Taken]'' @ endl"
    using t1 by (simp add: pub_text_def)
  have r: "main_rest (l', w') =
      (0, print (''Ivan Petrov borrowed books:'' @ endl
       @ ''Book: C++ for Beginners (2020), Education - Herbert Schildt [Taken]'' @ endl
       @ endl @ ''=== Library Collection ==='' @ endl
       @ ''Book: C++ for Beginners (2020), Education - Herbert Schildt [Taken]'' @ endl
       @ ''E-Book: The C++ Programming Language (2013), size: 5.6MB - Bjarne Stroustrup'' @ endl
       @ ''Magazine: TechWorld #12 (2025) - Herbert Schildt'' @ endl
       @ ''Olena is Admin'' @ endl
       @ endl @ ''=== All Publications (via template) ==='' @ endl
       @ ''Book: C++ for Beginners (2020), Education - Herbert Schildt [Taken]'' @ endl
       @ ''E-Book: The C++ Programming Language (2013), size: 5.6MB - Bjarne Stroustrup'' @ endl
       @ ''Magazine: TechWorld #12 (2025) - Herbert Schildt'' @ endl) w')"
    by (simp add: main_rest_def listBooks_eq showAll_eq printList_displayInfo_eq showRole_def
        Admin_def print_print l'_def lb rd Reader_def t1 t2 t3 t4)
  have "cout w' = cout w0 @ ''Ivan Petrov borrowed '' @ dquote @ ''C++ for Beginners'' @ dquote @ endl"
    by (simp add: w'_def c0)
  then show ?thesis
    by (simp add: main_def s t r)
qed

subsection \<open>A sample store\<close>

lemma sample_world_fields:
  "books sample_world 0
     = IsBook (Book ''C++ for Beginners'' 2020 (Author ''Herbert Schildt'') ''Education'')"
  "books sample_world (Suc 0)
     = IsEBook (EBook ''The C++ Programming Language'' 2013 (Author ''Bjarne Stroustrup'')
                 ''Programming'' literal_5_6)"
  "cout sample_world = []"
  by (simp_all add: sample_world_def main_setup_eq blank_world_def)

lemma sample_world_available: "obj_isAvailable (books sample_world a)"
  by (simp add: sample_world_def main_setup_eq blank_world_def Book_def EBook_def
      isAvailable_def)

lemma sample_world_title: "obj_getTitle (books sample_world 0) = ''C++ for Beginners''"
  by (simp add: sample_world_fields Book_def getTitle_def)

lemma sample_run:
  "borrowed (fst (run_ops [BorrowBook (Some 0), BorrowBook (Some 0), ListBooks, BorrowBook None,
                           BorrowBook (Some 1)] (Reader ''Ivan Petrov'') sample_world))
     = [Some 0, Some 1]"
  by (simp add: run_ops_def borrowBook_def sample_world_available Reader_def)

text \<open>
  \<open>Book::ret\<close> is public. A call of it from outside the class \<open>Reader\<close> on a held book
  is not one of the reader's operations, and the invariant does not survive it: the
  book is available while held, and the reader can borrow it a second time.
\<close>

lemma ret_from_outside:
  "borrowBook (Some 0) (Reader n) sample_world = (rd, w) \<Longrightarrow>
     obj_isAvailable (books (call_ret 0 w) 0)
     \<and> borrowed (fst (borrowBook (Some 0) rd (call_ret 0 w))) = [Some 0, Some 0]"
  by (auto simp: borrowBook_def sample_world_available Reader_def)

section \<open>The claims\<close>

text \<open>
  C1. \<open>borrowBook\<close> on a null pointer, or on a book that reports unavailable, leaves the
  reader (and so the borrowed list) and every object of the store as they were, and adds
  one diagnostic line to the output. On an available book it appends the pointer to the
  borrowed list, marks that book and no other unavailable, and prints the confirmation
  line with the reader's name and the book's title.
\<close>

theorem borrowBook_outcomes:
  "(b = None \<longrightarrow>
      fst (borrowBook b rd w) = rd
      \<and> books (snd (borrowBook b rd w)) = books w
      \<and> magazines (snd (borrowBook b rd w)) = magazines w
      \<and> cout (snd (borrowBook b rd w)) = cout w @ ''Invalid book pointer'' @ endl)
   \<and> (\<forall>a. b = Some a \<and> \<not> obj_isAvailable (books w a) \<longrightarrow>
      fst (borrowBook b rd w) = rd
      \<and> books (snd (borrowBook b rd w)) = books w
      \<and> magazines (snd (borrowBook b rd w)) = magazines w
      \<and> cout (snd (borrowBook b rd w)) = cout w @ ''Book not available!'' @ endl)
   \<and> (\<forall>a. b = Some a \<and> obj_isAvailable (books w a) \<longrightarrow>
      fst (borrowBook b rd w) = rd\<lparr>borrowed := borrowed rd @ [b]\<rparr>
      \<and> books (snd (borrowBook b rd w)) = (books w)(a := obj_borrow (books w a))
      \<and> \<not> obj_isAvailable (books (snd (borrowBook b rd w)) a)
      \<and> magazines (snd (borrowBook b rd w)) = magazines w
      \<and> cout (snd (borrowBook b rd w))
            = cout w @ name rd @ '' borrowed '' @ dquote @ obj_getTitle (books w a) @ dquote @ endl)"
  by (simp add: borrowBook_def)

theorem borrowBook_outcomes_witness:
  "fst (borrowBook None (Reader ''Ivan Petrov'') sample_world) = Reader ''Ivan Petrov''
   \<and> cout (snd (borrowBook None (Reader ''Ivan Petrov'') sample_world)) = ''Invalid book pointer'' @ endl
   \<and> \<not> obj_isAvailable (books (call_borrow 0 sample_world) 0)
   \<and> fst (borrowBook (Some 0) (Reader ''Ivan Petrov'') (call_borrow 0 sample_world))
       = Reader ''Ivan Petrov''
   \<and> books (snd (borrowBook (Some 0) (Reader ''Ivan Petrov'') (call_borrow 0 sample_world)))
       = books (call_borrow 0 sample_world)
   \<and> cout (snd (borrowBook (Some 0) (Reader ''Ivan Petrov'') (call_borrow 0 sample_world)))
       = ''Book not available!'' @ endl
   \<and> obj_isAvailable (books sample_world 0)
   \<and> borrowed (fst (borrowBook (Some 0) (Reader ''Ivan Petrov'') sample_world)) = [Some 0]
   \<and> \<not> obj_isAvailable (books (snd (borrowBook (Some 0) (Reader ''Ivan Petrov'') sample_world)) 0)
   \<and> cout (snd (borrowBook (Some 0) (Reader ''Ivan Petrov'') sample_world))
       = ''Ivan Petrov borrowed '' @ dquote @ ''C++ for Beginners'' @ dquote @ endl"
proof -
  have av: "obj_isAvailable (books sample_world 0)"
    by (rule sample_world_available)
  have un: "\<not> obj_isAvailable (books (call_borrow 0 sample_world) 0)"
    by simp
  have c0: "cout sample_world = []"
    by (rule sample_world_fields)
  have t0: "obj_getTitle (books sample_world 0) = ''C++ for Beginners''"
    by (rule sample_world_title)
  from borrowBook_outcomes [of None "Reader ''Ivan Petrov''" sample_world]
  have 1: "fst (borrowBook None (Reader ''Ivan Petrov'') sample_world) = Reader ''Ivan Petrov''
       \<and> cout (snd (borrowBook None (Reader ''Ivan Petrov'') sample_world))
           = ''Invalid book pointer'' @ endl"
    by (simp add: c0)
  from borrowBook_outcomes [of "Some 0" "Reader ''Ivan Petrov''" "call_borrow 0 sample_world"] un
  have 2: "fst (borrowBook (Some 0) (Reader ''Ivan Petrov'') (call_borrow 0 sample_world))
       = Reader ''Ivan Petrov''
     \<and> books (snd (borrowBook (Some 0) (Reader ''Ivan Petrov'') (call_borrow 0 sample_world)))
       = books (call_borrow 0 sample_world)
     \<and> cout (snd (borrowBook (Some 0) (Reader ''Ivan Petrov'') (call_borrow 0 sample_world)))
       = ''Book not available!'' @ endl"
    by (simp add: c0)
  from borrowBook_outcomes [of "Some 0" "Reader ''Ivan Petrov''" sample_world] av
  have 3: "borrowed (fst (borrowBook (Some 0) (Reader ''Ivan Petrov'') sample_world)) = [Some 0]
     \<and> \<not> obj_isAvailable (books (snd (borrowBook (Some 0) (Reader ''Ivan Petrov'') sample_world)) 0)
     \<and> cout (snd (borrowBook (Some 0) (Reader ''Ivan Petrov'') sample_world))
       = ''Ivan Petrov borrowed '' @ dquote @ ''C++ for Beginners'' @ dquote @ endl"
    by (simp add: c0 t0 Reader_def)
  from 1 2 3 av un show ?thesis
    by blast
qed

text \<open>
  C2. The scenario of \<open>main\<close>: the book built by
  \<open>Book("C++ for Beginners", 2020, "Herbert Schildt", "Education")\<close> is available at first;
  the call of \<open>borrowBook\<close> by the reader Ivan Petrov adds the line
  \<open>Ivan Petrov borrowed "C++ for Beginners"\<close> to the output and leaves the book
  unavailable and alone in the reader's list; \<open>listBooks\<close> then prints its header and
  exactly one book line, \<open>Book: C++ for Beginners (2020), Education - Herbert Schildt [Taken]\<close>.
\<close>

theorem main_scenario:
  "(case main_setup w0 of (l, w) \<Rightarrow>
      books w (main_b1 l)
        = IsBook (Book ''C++ for Beginners'' 2020 (Author ''Herbert Schildt'') ''Education'')
      \<and> obj_isAvailable (books w (main_b1 l))
      \<and> main_r l = Reader ''Ivan Petrov''
      \<and> (case main_borrow (l, w) of (l', w') \<Rightarrow>
           cout w' = cout w @ ''Ivan Petrov borrowed '' @ dquote @ ''C++ for Beginners'' @ dquote @ endl
           \<and> \<not> obj_isAvailable (books w' (main_b1 l'))
           \<and> borrowed (main_r l') = [Some (main_b1 l')]
           \<and> cout (listBooks (main_r l') w')
               = cout w' @ ''Ivan Petrov borrowed books:'' @ endl
                 @ ''Book: C++ for Beginners (2020), Education - Herbert Schildt [Taken]'' @ endl))
   \<and> main w0 = main_rest (main_borrow (main_setup w0))
   \<and> (\<exists>rest. cout (snd (main w0))
         = cout w0 @ ''Ivan Petrov borrowed '' @ dquote @ ''C++ for Beginners'' @ dquote @ endl
           @ ''Ivan Petrov borrowed books:'' @ endl
           @ ''Book: C++ for Beginners (2020), Education - Herbert Schildt [Taken]'' @ endl
           @ rest)"
proof -
  obtain l w where s: "main_setup w0 = (l, w)"
    by (cases "main_setup w0")
  from s have b1: "books w (main_b1 l)
      = IsBook (Book ''C++ for Beginners'' 2020 (Author ''Herbert Schildt'') ''Education'')"
    and rd: "main_r l = Reader ''Ivan Petrov''"
    by (auto simp: main_setup_eq)
  have av: "obj_isAvailable (books w (main_b1 l))"
    by (simp add: b1 Book_def isAvailable_def)
  obtain l' w' where t: "main_borrow (l, w) = (l', w')"
    by (cases "main_borrow (l, w)")
  from t av have l': "l' = l\<lparr>main_r := (main_r l)\<lparr>borrowed := borrowed (main_r l) @ [Some (main_b1 l)]\<rparr>\<rparr>"
    and w': "w' = print (name (main_r l) @ '' borrowed '' @ dquote
                  @ obj_getTitle (books w (main_b1 l)) @ dquote @ endl) (call_borrow (main_b1 l) w)"
    by (auto simp: main_borrow_def borrowBook_def)
  have c1: "cout w' = cout w @ ''Ivan Petrov borrowed '' @ dquote @ ''C++ for Beginners'' @ dquote @ endl"
    by (simp add: w' rd b1 Reader_def Book_def getTitle_def)
  have c2: "\<not> obj_isAvailable (books w' (main_b1 l'))"
    by (simp add: w' l')
  have c3: "borrowed (main_r l') = [Some (main_b1 l')]"
    by (simp add: l' rd Reader_def)
  have c4: "cout (listBooks (main_r l') w')
               = cout w' @ ''Ivan Petrov borrowed books:'' @ endl
                 @ ''Book: C++ for Beginners (2020), Education - Herbert Schildt [Taken]'' @ endl"
    by (simp add: listBooks_eq c3) (simp add: w' l' rd b1 Reader_def sample_lines)
  from b1 av rd c1 c2 c3 c4
  have stages: "(case main_setup w0 of (l, w) \<Rightarrow>
      books w (main_b1 l)
        = IsBook (Book ''C++ for Beginners'' 2020 (Author ''Herbert Schildt'') ''Education'')
      \<and> obj_isAvailable (books w (main_b1 l))
      \<and> main_r l = Reader ''Ivan Petrov''
      \<and> (case main_borrow (l, w) of (l', w') \<Rightarrow>
           cout w' = cout w @ ''Ivan Petrov borrowed '' @ dquote @ ''C++ for Beginners'' @ dquote @ endl
           \<and> \<not> obj_isAvailable (books w' (main_b1 l'))
           \<and> borrowed (main_r l') = [Some (main_b1 l')]
           \<and> cout (listBooks (main_r l') w')
               = cout w' @ ''Ivan Petrov borrowed books:'' @ endl
                 @ ''Book: C++ for Beginners (2020), Education - Herbert Schildt [Taken]'' @ endl))"
    by (simp add: s t)
  have whole: "\<exists>rest. cout (snd (main w0))
         = cout w0 @ ''Ivan Petrov borrowed '' @ dquote @ ''C++ for Beginners'' @ dquote @ endl
           @ ''Ivan Petrov borrowed books:'' @ endl
           @ ''Book: C++ for Beginners (2020), Education - Herbert Schildt [Taken]'' @ endl
           @ rest"
    using main_transcript [of w0] by simp
  from stages whole show ?thesis
    by (simp only: main_def simp_thms)
qed

text \<open>
  C3. For every book whose availability is true, \<open>borrow()\<close> sets the availability to
  false and a following \<open>ret()\<close> sets it to true again; nothing else in the object
  changes, so the pair brings the book back to the state it started in.
\<close>

theorem borrow_ret_roundtrip:
  "isAvailable b \<Longrightarrow>
     \<not> isAvailable (borrow b) \<and> isAvailable (ret (borrow b)) \<and> ret (borrow b) = b"
  by (simp add: isAvailable_def borrow_def ret_def)

theorem borrow_ret_roundtrip_witness:
  "isAvailable (Book ''C++ for Beginners'' 2020 (Author ''Herbert Schildt'') ''Education'')
   \<and> \<not> isAvailable (borrow (Book ''C++ for Beginners'' 2020 (Author ''Herbert Schildt'') ''Education''))
   \<and> isAvailable (ret (borrow (Book ''C++ for Beginners'' 2020 (Author ''Herbert Schildt'') ''Education'')))
   \<and> ret (borrow (Book ''C++ for Beginners'' 2020 (Author ''Herbert Schildt'') ''Education''))
       = Book ''C++ for Beginners'' 2020 (Author ''Herbert Schildt'') ''Education''"
proof -
  have h: "isAvailable (Book ''C++ for Beginners'' 2020 (Author ''Herbert Schildt'') ''Education'')"
    by (simp add: isAvailable_def Book_def)
  from borrow_ret_roundtrip [OF h] h show ?thesis
    by blast
qed

text \<open>
  C4. \<open>returnAll\<close> empties the reader's list, whatever its length, and marks every book
  the list held available, changing nothing else of those books and no other object;
  it prints nothing. A second \<open>returnAll\<close> right after the first changes neither the
  reader nor the store.
\<close>

theorem returnAll_clears_and_frees:
  "borrowed (fst (returnAll rd w)) = []
   \<and> name (fst (returnAll rd w)) = name rd
   \<and> (\<forall>a. Some a \<in> set (borrowed rd) \<longrightarrow>
          obj_isAvailable (books (snd (returnAll rd w)) a)
          \<and> books (snd (returnAll rd w)) a = obj_ret (books w a))
   \<and> (\<forall>a. Some a \<notin> set (borrowed rd) \<longrightarrow> books (snd (returnAll rd w)) a = books w a)
   \<and> magazines (snd (returnAll rd w)) = magazines w
   \<and> cout (snd (returnAll rd w)) = cout w
   \<and> returnAll (fst (returnAll rd w)) (snd (returnAll rd w)) = returnAll rd w"
  by (simp add: returnAll_def for_each_call_ret_fields)

theorem returnAll_clears_and_frees_witness:
  "Some 0 \<in> set (borrowed \<lparr>name = ''Ivan Petrov'', borrowed = [Some 0, None]\<rparr>)
   \<and> \<not> obj_isAvailable (books (call_borrow 1 (call_borrow 0 sample_world)) 0)
   \<and> obj_isAvailable
        (books (snd (returnAll \<lparr>name = ''Ivan Petrov'', borrowed = [Some 0, None]\<rparr>
                       (call_borrow 1 (call_borrow 0 sample_world)))) 0)
   \<and> Some 1 \<notin> set (borrowed \<lparr>name = ''Ivan Petrov'', borrowed = [Some 0, None]\<rparr>)
   \<and> books (snd (returnAll \<lparr>name = ''Ivan Petrov'', borrowed = [Some 0, None]\<rparr>
                     (call_borrow 1 (call_borrow 0 sample_world)))) 1
       = books (call_borrow 1 (call_borrow 0 sample_world)) 1
   \<and> borrowed (fst (returnAll \<lparr>name = ''Ivan Petrov'', borrowed = [Some 0, None]\<rparr>
                        (call_borrow 1 (call_borrow 0 sample_world)))) = []"
proof -
  have m: "Some 0 \<in> set (borrowed \<lparr>name = ''Ivan Petrov'', borrowed = [Some 0, None]\<rparr>)"
    and n: "Some 1 \<notin> set (borrowed \<lparr>name = ''Ivan Petrov'', borrowed = [Some 0, None]\<rparr>)"
    and u: "\<not> obj_isAvailable (books (call_borrow 1 (call_borrow 0 sample_world)) 0)"
    by simp_all
  from returnAll_clears_and_frees
         [of "\<lparr>name = ''Ivan Petrov'', borrowed = [Some 0, None]\<rparr>"
             "call_borrow 1 (call_borrow 0 sample_world)"] m n u
  show ?thesis
    by blast
qed

text \<open>
  C5. \<open>Library::showAll\<close> and \<open>printList\<close> print their header and then call
  \<open>displayInfo\<close> on the entries that are not null, one after the other in sequence
  order, passing over the null entries; for the library that order is the order of the
  \<open>addPublication\<close> calls. The text that reaches the output is the header followed by
  the lines of those entries in that order. Both are total: there is no input on which
  they stop before the end of the sequence.
\<close>

theorem showAll_printList_in_order:
  "showAll lb w
     = fold displayInfo (non_null (publications lb))
         (print (endl @ ''=== Library Collection ==='' @ endl) w)
   \<and> printList disp items ttl w
     = fold disp (non_null items) (print (endl @ ''=== '' @ ttl @ '' ==='' @ endl) w)
   \<and> showAll lb w
     = print (endl @ ''=== Library Collection ==='' @ endl
              @ concat (map (pub_text w) (non_null (publications lb)))) w
   \<and> printList displayInfo ps ttl w
     = print (endl @ ''=== '' @ ttl @ '' ==='' @ endl
              @ concat (map (pub_text w) (non_null ps))) w
   \<and> publications (fold addPublication ps lb) = publications lb @ ps"
  by (simp add: showAll_def printList_def for_each_fold fold_displayInfo
      publications_fold_addPublication)

text \<open>
  C6. \<open>displayInfo\<close> of an e-book writes \<open>E-Book: \<close>, the title, the year in
  parentheses, \<open>size: \<close> with the file size followed by \<open>MB\<close>, and the author's name,
  ended by a line feed. The text does not depend on the availability of the e-book, so
  no availability suffix is written. For the e-book of \<open>main\<close> the line is
  \<open>E-Book: The C++ Programming Language (2013), size: 5.6MB - Bjarne Stroustrup\<close>.
\<close>

theorem EBook_displayInfo_format:
  "EBook_displayInfo e
     = ''E-Book: '' @ title e @ '' ('' @ show_int (year e) @ ''), size: ''
       @ show_double (fileSize e) @ ''MB - '' @ getName (author e) @ endl
   \<and> obj_displayInfo (IsEBook e) = EBook_displayInfo e
   \<and> EBook_displayInfo (e\<lparr>available := v\<rparr>) = EBook_displayInfo e
   \<and> EBook_displayInfo
       (EBook ''The C++ Programming Language'' 2013 (Author ''Bjarne Stroustrup'')
          ''Programming'' literal_5_6)
     = ''E-Book: The C++ Programming Language (2013), size: 5.6MB - Bjarne Stroustrup'' @ endl"
  by (simp add: EBook_displayInfo_def getTitle_def getYear_def getAuthorName_def EBook_def
      show_int_samples show_double_5_6)

text \<open>
  C7. A reader that starts with an empty borrowed list and goes through any sequence of
  \<open>borrowBook\<close>, \<open>returnAll\<close> and \<open>listBooks\<close> calls, with any pointers and in any store,
  has no pointer twice in its borrowed list.
\<close>

theorem borrowed_list_distinct:
  "borrowed rd = [] \<Longrightarrow> distinct (borrowed (fst (run_ops ops rd w)))"
  using held_unavailable_run_ops [of rd ops w] by (simp add: held_unavailable_iff)

theorem borrowed_list_distinct_witness:
  "borrowed (Reader ''Ivan Petrov'') = []
   \<and> borrowed (fst (run_ops [BorrowBook (Some 0), BorrowBook (Some 0), ListBooks, BorrowBook None,
                           BorrowBook (Some 1)] (Reader ''Ivan Petrov'') sample_world))
     = [Some 0, Some 1]
   \<and> distinct (borrowed (fst (run_ops [BorrowBook (Some 0), BorrowBook (Some 0), ListBooks,
        BorrowBook None, BorrowBook (Some 1)] (Reader ''Ivan Petrov'') sample_world)))"
proof -
  have e: "borrowed (Reader ''Ivan Petrov'') = []"
    by (simp add: Reader_def)
  from borrowed_list_distinct [OF e] e sample_run show ?thesis
    by blast
qed

text \<open>
  C8. In either availability state, a second \<open>borrow()\<close> changes nothing that the first
  one has not already done, and the same holds for \<open>ret()\<close>: the state after two calls
  is the state after one, and it is the unavailable (respectively available) state.
\<close>

theorem borrow_ret_idempotent:
  "borrow (borrow b) = borrow b \<and> ret (ret b) = ret b
   \<and> \<not> isAvailable (borrow b) \<and> isAvailable (ret b)"
  by (simp add: isAvailable_def borrow_def ret_def)

text \<open>
  C9. \<open>Admin::removeBook\<close> hands the library back as it got it and changes no object of
  the store; all it does is add the line \<open><name> removed a book (simulated)\<close> to the
  output.
\<close>

theorem removeBook_leaves_library:
  "fst (removeBook u lb w) = lb
   \<and> books (snd (removeBook u lb w)) = books w
   \<and> magazines (snd (removeBook u lb w)) = magazines w
   \<and> next_addr (snd (removeBook u lb w)) = next_addr w
   \<and> cout (snd (removeBook u lb w))
       = cout w @ user_name u @ '' removed a book (simulated)'' @ endl"
  by (simp add: removeBook_def)

text \<open>
  C10. A reader that starts with an empty borrowed list and goes through any sequence of
  \<open>borrowBook\<close>, \<open>returnAll\<close> and \<open>listBooks\<close> calls holds no null pointer, and every book
  in its borrowed list is marked unavailable.
\<close>

theorem held_books_unavailable:
  "borrowed rd = [] \<Longrightarrow>
   None \<notin> set (borrowed (fst (run_ops ops rd w)))
   \<and> (\<forall>a. Some a \<in> set (borrowed (fst (run_ops ops rd w)))
          \<longrightarrow> \<not> obj_isAvailable (books (snd (run_ops ops rd w)) a))"
  using held_unavailable_run_ops [of rd ops w]
  by (simp add: held_unavailable_iff)

theorem held_books_unavailable_witness:
  "borrowed (Reader ''Ivan Petrov'') = []
   \<and> Some 1 \<in> set (borrowed (fst (run_ops [BorrowBook (Some 0), BorrowBook (Some 0), ListBooks,
        BorrowBook None, BorrowBook (Some 1)] (Reader ''Ivan Petrov'') sample_world)))
   \<and> \<not> obj_isAvailable (books (snd (run_ops [BorrowBook (Some 0), BorrowBook (Some 0), ListBooks,
        BorrowBook None, BorrowBook (Some 1)] (Reader ''Ivan Petrov'') sample_world)) 1)"
proof -
  have e: "borrowed (Reader ''Ivan Petrov'') = []"
    by (simp add: Reader_def)
  have m: "Some 1 \<in> set (borrowed (fst (run_ops [BorrowBook (Some 0), BorrowBook (Some 0),
        ListBooks, BorrowBook None, BorrowBook (Some 1)] (Reader ''Ivan Petrov'') sample_world)))"
    unfolding sample_run by simp
  from held_books_unavailable [OF e] e m show ?thesis
    by blast
qed

end
